theory Spec2Isabelle
  imports Complex_Main
begin

section \<open>Data model\<close>

text \<open>
  The request-scoped entities of the search pipeline, as the Python sources declare them.
  Python strings are modelled as \<open>string\<close>; an \<open>Optional\<close> field is an \<open>option\<close>.
  Field names carry a short prefix where two classes of the source share a field name.
\<close>

text \<open>\<^verbatim>\<open>backend/core/user_context.py\<close>: the dataclasses \<^verbatim>\<open>AssignedPlay\<close> and
  \<^verbatim>\<open>UserContext\<close>, and the property \<^verbatim>\<open>assigned_play_ids\<close>.\<close>

record AssignedPlay =
  ap_play_id :: string
  ap_play_title :: string
  ap_status :: string
  ap_completed_at :: "string option"

record UserContext =
  user_id :: string
  username :: string
  display_name :: string
  company_id :: string
  company_name :: string
  assigned_plays :: "AssignedPlay list"

definition assigned_play_ids :: "UserContext \<Rightarrow> string list" where
  "assigned_play_ids ctx = map ap_play_id (assigned_plays ctx)"

section \<open>Filter builder\<close>

text \<open>
  \<^verbatim>\<open>build_pinecone_filter\<close> returns a nested dict literal of the vector index's filter
  language. Each dict shape the function writes is one constructor:
  \<^verbatim>\<open>{field: {"$eq": v}}\<close> is \<open>Eq field v\<close>, \<^verbatim>\<open>{field: {"$in": vs}}\<close> is \<open>In field vs\<close>,
  \<^verbatim>\<open>{"$and": [...]}\<close> is \<open>And [...]\<close> and \<^verbatim>\<open>{"$or": [...]}\<close> is \<open>Or [...]\<close>.
\<close>

datatype pfilter =
    Eq string string
  | In string "string list"
  | And "pfilter list"
  | Or "pfilter list"

definition company_fence :: "UserContext \<Rightarrow> pfilter" where
  "company_fence ctx = Eq ''company_id'' (company_id ctx)"

definition knowledge_filter :: "UserContext \<Rightarrow> pfilter" where
  "knowledge_filter ctx =
     And [company_fence ctx,
          Eq ''content_type'' ''knowledge'',
          In ''play_id'' (assigned_play_ids ctx)]"

definition submission_filter :: "UserContext \<Rightarrow> pfilter" where
  "submission_filter ctx =
     And [company_fence ctx,
          Eq ''content_type'' ''submission'',
          Eq ''user_id'' (user_id ctx)]"

definition combined_filter :: "UserContext \<Rightarrow> pfilter" where
  "combined_filter ctx =
     And [company_fence ctx,
          Or [And [Eq ''content_type'' ''knowledge'',
                   In ''play_id'' (assigned_play_ids ctx)],
              And [Eq ''content_type'' ''submission'',
                   Eq ''user_id'' (user_id ctx)]]]"

definition build_pinecone_filter :: "UserContext \<Rightarrow> string \<Rightarrow> pfilter" where
  "build_pinecone_filter ctx intent =
     (if intent = ''performance_history'' then submission_filter ctx
      else if intent = ''combined'' then combined_filter ctx
      else knowledge_filter ctx)"

text \<open>
  The meaning of a filter on one stored record, as the vector index evaluates it. The
  ingestion job (\<^verbatim>\<open>build_knowledge_metadata\<close>, \<^verbatim>\<open>build_submission_metadata\<close>) stores
  \<^verbatim>\<open>company_id\<close>, \<^verbatim>\<open>content_type\<close>, \<^verbatim>\<open>play_id\<close> and \<^verbatim>\<open>user_id\<close> as single strings, so
  the metadata of a record is a partial map from field names to strings; a field the
  record lacks satisfies neither \<^verbatim>\<open>$eq\<close> nor \<^verbatim>\<open>$in\<close>.
\<close>

fun matches :: "(string \<rightharpoonup> string) \<Rightarrow> pfilter \<Rightarrow> bool" where
  "matches md (Eq f v) = (md f = Some v)"
| "matches md (In f vs) = (case md f of None \<Rightarrow> False | Some v \<Rightarrow> v \<in> set vs)"
| "matches md (And fs) = list_all (matches md) fs"
| "matches md (Or fs) = list_ex (matches md) fs"

section \<open>Python string operations\<close>

text \<open>
  Characters of \<open>string\<close> are 8-bit; the model reads them as the code points below 256.
  \<^verbatim>\<open>str.strip()\<close> without argument removes leading and trailing whitespace, that is the
  characters for which \<^verbatim>\<open>str.isspace\<close> holds: below 256 these are the code points
  9 to 13, 28 to 32, 133 and 160.
\<close>

definition isspace :: "char \<Rightarrow> bool" where
  "isspace c =
     (let n = (of_char c :: nat)
      in (9 \<le> n \<and> n \<le> 13) \<or> (28 \<le> n \<and> n \<le> 32) \<or> n = 133 \<or> n = 160)"

definition strip :: "string \<Rightarrow> string" where
  "strip s = rev (dropWhile isspace (rev (dropWhile isspace s)))"

definition startswith :: "string \<Rightarrow> string \<Rightarrow> bool" where
  "startswith s p = (take (length p) s = p)"

text \<open>
  \<^verbatim>\<open>s.split(sep)\<close> for a non-empty separator: the pieces between successive
  non-overlapping occurrences of \<open>sep\<close>, scanning from the left; \<open>cur\<close> is the piece
  being read.
\<close>

function split_from :: "string \<Rightarrow> string \<Rightarrow> string \<Rightarrow> string list" where
  "split_from sep cur [] = [cur]"
| "split_from sep cur (c # cs) =
     (if sep \<noteq> [] \<and> startswith (c # cs) sep
      then cur # split_from sep [] (drop (length sep) (c # cs))
      else split_from sep (cur @ [c]) cs)"
  by pat_completeness auto
termination
  by (relation "measure (\<lambda>(sep, cur, s). length s)") (auto simp: neq_Nil_conv)

definition split :: "string \<Rightarrow> string \<Rightarrow> string list" where
  "split s sep = split_from sep [] s"

text \<open>List indexing \<^verbatim>\<open>xs[i]\<close> for \<open>i \<ge> 0\<close>; \<open>None\<close> stands for \<^verbatim>\<open>IndexError\<close>.\<close>

definition index :: "'a list \<Rightarrow> nat \<Rightarrow> 'a option" where
  "index xs i = (if i < length xs then Some (xs ! i) else None)"

section \<open>Exceptions\<close>

text \<open>
  Every call to an external provider (text generation, embedding, vector index) may raise.
  An exception is a value of \<open>error\<close>: \<open>ProviderError msg\<close> for a provider's failure,
  where \<open>msg\<close> is its \<^verbatim>\<open>str()\<close>, and \<open>IndexError\<close> for a list subscript out of
  range. A computation that may raise returns \<open>error + 'a\<close>.
\<close>

datatype error = ProviderError string | IndexError

fun message :: "error \<Rightarrow> string" where
  "message (ProviderError msg) = msg"
| "message IndexError = ''list index out of range''"

section \<open>Schemas\<close>

text \<open>\<^verbatim>\<open>backend/models/api_schemas.py\<close>.\<close>

record SourceChunk =
  asset_id :: string
  asset_type :: string
  play_id :: "string option"
  play_title :: string
  rep_title :: string
  chunk_text :: string
  page_number :: "int option"
  timestamp_start :: "string option"
  timestamp_end :: "string option"
  score :: "real option"
  section_id :: "string option"
  heading :: "string option"
  feedback_score :: "int option"

record IntentResult =
  intent :: string
  confidence :: real
  reasoning :: string

record Recommendation =
  rec_play_id :: string
  rec_play_title :: string
  rec_rep_id :: "string option"
  rec_rep_title :: "string option"
  rec_status :: string
  rec_reason :: string

record SearchResponse =
  sr_intent :: IntentResult
  response_tier :: string
  answer :: string
  sources :: "SourceChunk list"
  recommendations :: "Recommendation list"

text \<open>The five values of the \<^verbatim>\<open>Literal\<close> type of \<^verbatim>\<open>IntentResult.intent\<close>.\<close>

definition INTENTS :: "string list" where
  "INTENTS = [''assigned_knowledge'', ''performance_history'', ''combined'',
              ''general_professional'', ''out_of_scope'']"

section \<open>JSON values\<close>

text \<open>
  The value that \<^verbatim>\<open>json.loads\<close> returns is a \<open>json\<close>; an object keeps its members as
  an association list read with \<open>map_of\<close>.
\<close>

datatype json =
    JNull
  | JBool bool
  | JNum real
  | JStr string
  | JArr "json list"
  | JObj "(string \<times> json) list"

section \<open>Vector index results\<close>

text \<open>
  The metadata dict of a match, as the ingestion job stores it; a key the dict lacks is
  \<open>None\<close>. The values have the types \<^verbatim>\<open>build_knowledge_metadata\<close> and
  \<^verbatim>\<open>build_submission_metadata\<close> write, which are the types \<^verbatim>\<open>SourceChunk\<close> accepts.
\<close>

record metadata =
  md_asset_id :: "string option"
  md_asset_type :: "string option"
  md_play_id :: "string option"
  md_play_title :: "string option"
  md_rep_title :: "string option"
  md_chunk_text :: "string option"
  md_page_number :: "int option"
  md_timestamp_start :: "string option"
  md_timestamp_end :: "string option"
  md_section_id :: "string option"
  md_heading :: "string option"
  md_feedback_score :: "int option"

definition empty_metadata :: metadata where
  "empty_metadata =
     \<lparr>md_asset_id = None, md_asset_type = None, md_play_id = None, md_play_title = None,
      md_rep_title = None, md_chunk_text = None, md_page_number = None,
      md_timestamp_start = None, md_timestamp_end = None, md_section_id = None,
      md_heading = None, md_feedback_score = None\<rparr>"

text \<open>
  A match is either the index client's object, with the attributes \<^verbatim>\<open>score\<close> and
  \<^verbatim>\<open>metadata\<close>, or a plain dict in which either key may be missing.
\<close>

datatype pmatch =
    ScoredVector real metadata
  | DictMatch "real option" "metadata option"

section \<open>External collaborators\<close>

text \<open>
  What the pipeline calls but does not define, and the two settings it reads. A provider
  call is a function of the arguments the pipeline passes (the prompts are fixed texts
  around them) to the exception it raises or the value it returns:
  \<^item> \<open>llm_classify query\<close>: the text of the reply to the classification prompt;
  \<^item> \<open>loads\<close> is \<^verbatim>\<open>json.loads\<close> and \<open>float_of_str\<close> is \<^verbatim>\<open>float\<close> on a string, each
    \<open>None\<close> where the Python function raises;
  \<^item> \<open>embeddings_create query\<close>: the embedding vector;
  \<^item> \<open>index_query vector top_k filter\<close>: the \<^verbatim>\<open>matches\<close> attribute of the result,
    \<open>None\<close> when it is absent or \<^verbatim>\<open>None\<close>;
  \<^item> \<open>llm_grounded query chunks\<close>, \<open>llm_general query\<close>: the text of a blocking reply;
  \<^item> \<open>astream_grounded query chunks\<close>, \<open>astream_general query\<close>: the texts of the
    increments a streaming reply delivers, and the exception that ends it if it fails;
  \<^item> \<open>recommender ctx retrieved_play_ids query\<close>: the rule-based recommender, which
    calls no provider and does not raise.
\<close>

record env =
  llm_classify :: "string \<Rightarrow> error + string"
  loads :: "string \<Rightarrow> json option"
  float_of_str :: "string \<Rightarrow> real option"
  embeddings_create :: "string \<Rightarrow> error + real list"
  index_query :: "real list \<Rightarrow> nat \<Rightarrow> pfilter \<Rightarrow> error + pmatch list option"
  llm_grounded :: "string \<Rightarrow> SourceChunk list \<Rightarrow> error + string"
  llm_general :: "string \<Rightarrow> error + string"
  astream_grounded :: "string \<Rightarrow> SourceChunk list \<Rightarrow> string list \<times> error option"
  astream_general :: "string \<Rightarrow> string list \<times> error option"
  recommender :: "UserContext \<Rightarrow> string set \<Rightarrow> string \<Rightarrow> Recommendation list"
  pinecone_top_k :: nat
  similarity_threshold :: real

text \<open>
  The calls a request makes to its collaborators are recorded in order, so that what a
  path calls, and with which arguments, can be stated. An effectful function returns the
  calls it made together with its exception or result.
\<close>

datatype call =
    ClassifierCall string
  | EmbeddingCall string
  | IndexQueryCall "real list" nat pfilter
  | GroundedCall string "SourceChunk list"
  | GeneralCall string
  | GroundedStreamCall string "SourceChunk list"
  | GeneralStreamCall string
  | RecommenderCall UserContext "string set" string

type_synonym 'a eff = "call list \<times> (error + 'a)"

definition ret :: "'a \<Rightarrow> 'a eff" where
  "ret x = ([], Inr x)"

definition perform :: "call \<Rightarrow> error + 'a \<Rightarrow> 'a eff" where
  "perform c r = ([c], r)"

definition bind_eff :: "'a eff \<Rightarrow> ('a \<Rightarrow> 'b eff) \<Rightarrow> 'b eff" where
  "bind_eff m f =
     (case m of
        (t, Inl e) \<Rightarrow> (t, Inl e)
      | (t, Inr x) \<Rightarrow> (case f x of (t', r) \<Rightarrow> (t @ t', r)))"

section \<open>Intent classifier\<close>

text \<open>\<^verbatim>\<open>backend/pipeline/intent_classifier.py\<close>, \<^verbatim>\<open>classify_intent\<close>.\<close>

text \<open>\<^verbatim>\<open>float(x)\<close> on a parsed JSON value; \<open>None\<close> stands for the exception it raises.\<close>

fun py_float :: "env \<Rightarrow> json \<Rightarrow> real option" where
  "py_float E (JNum r) = Some r"
| "py_float E (JBool b) = Some (if b then 1 else 0)"
| "py_float E (JStr s) = float_of_str E s"
| "py_float E _ = None"

text \<open>
  The constructor \<^verbatim>\<open>IntentResult(intent=..., confidence=..., reasoning=...)\<close> validates its
  arguments: \<open>intent\<close> must be one of the five literals and \<open>reasoning\<close> a string;
  \<open>None\<close> stands for the validation error.
\<close>

fun new_IntentResult :: "json \<Rightarrow> real \<Rightarrow> json \<Rightarrow> IntentResult option" where
  "new_IntentResult (JStr i) c (JStr r) =
     (if i \<in> set INTENTS
      then Some \<lparr>intent = i, confidence = c, reasoning = r\<rparr> else None)"
| "new_IntentResult _ c _ = None"

text \<open>\<^verbatim>\<open>d.get(key, default)\<close> on the members of a parsed object.\<close>

definition get_or :: "(string \<times> json) list \<Rightarrow> string \<Rightarrow> json \<Rightarrow> json" where
  "get_or kvs k d = (case map_of kvs k of None \<Rightarrow> d | Some v \<Rightarrow> v)"

text \<open>
  The body of the \<^verbatim>\<open>try\<close> block; \<open>None\<close> means that some statement of it raised
  (\<^verbatim>\<open>json.loads\<close>, the subscript \<^verbatim>\<open>parsed["intent"]\<close> on a value that is not an object or
  lacks the key, \<^verbatim>\<open>float\<close>, or the validation of \<^verbatim>\<open>IntentResult\<close>).
\<close>

definition try_parse :: "env \<Rightarrow> string \<Rightarrow> IntentResult option" where
  "try_parse E raw =
     (case loads E raw of
        None \<Rightarrow> None
      | Some parsed \<Rightarrow>
          (case parsed of
             JObj kvs \<Rightarrow>
               (case map_of kvs ''intent'' of
                  None \<Rightarrow> None
                | Some i \<Rightarrow>
                    (case py_float E (get_or kvs ''confidence'' (JNum 0.9)) of
                       None \<Rightarrow> None
                     | Some c \<Rightarrow> new_IntentResult i c (get_or kvs ''reasoning'' (JStr ''''))))
           | _ \<Rightarrow> None))"

definition default_IntentResult :: IntentResult where
  "default_IntentResult =
     \<lparr>intent = ''assigned_knowledge'', confidence = 0.5,
      reasoning = ''Classification failed, defaulting to knowledge search.''\<rparr>"

text \<open>
  The statements between \<^verbatim>\<open>llm.invoke\<close> and the \<^verbatim>\<open>try\<close> block: strip the reply, and if
  it starts with a markdown fence keep the second piece of the split at the fence, without
  a leading \<^verbatim>\<open>json\<close> tag. The subscript \<^verbatim>\<open>[1]\<close> is outside the \<^verbatim>\<open>try\<close> block, so its
  \<^verbatim>\<open>IndexError\<close> would propagate.
\<close>

definition FENCE :: string where
  "FENCE = [CHR 0x60, CHR 0x60, CHR 0x60]"

definition strip_fences :: "string \<Rightarrow> error + string" where
  "strip_fences content =
     (let raw = strip content
      in if startswith raw FENCE
         then (case index (split raw FENCE) 1 of
                 None \<Rightarrow> Inl IndexError
               | Some raw1 \<Rightarrow>
                   Inr (strip (if startswith raw1 ''json'' then drop 4 raw1 else raw1)))
         else Inr (strip raw))"

text \<open>
  \<open>classify_reply\<close> is \<^verbatim>\<open>classify_intent\<close> from the provider's reply on: an exception
  of the statements before the \<^verbatim>\<open>try\<close> block propagates, one inside it is replaced by
  the default result.
\<close>

definition classify_reply :: "env \<Rightarrow> string \<Rightarrow> error + IntentResult" where
  "classify_reply E content =
     (case strip_fences content of
        Inl e \<Rightarrow> Inl e
      | Inr raw \<Rightarrow>
          (case try_parse E raw of
             Some r \<Rightarrow> Inr r
           | None \<Rightarrow> Inr default_IntentResult))"

definition classify_intent :: "env \<Rightarrow> string \<Rightarrow> IntentResult eff" where
  "classify_intent E query =
     bind_eff (perform (ClassifierCall query) (llm_classify E query))
       (\<lambda>content. ([], classify_reply E content))"

section \<open>Retriever\<close>

text \<open>\<^verbatim>\<open>backend/pipeline/retriever.py\<close>, \<^verbatim>\<open>retrieve_chunks\<close>.\<close>

fun match_score :: "pmatch \<Rightarrow> real" where
  "match_score (ScoredVector s md) = s"
| "match_score (DictMatch None md) = 0"
| "match_score (DictMatch (Some s) md) = s"

fun match_metadata :: "pmatch \<Rightarrow> metadata" where
  "match_metadata (ScoredVector s md) = md"
| "match_metadata (DictMatch s None) = empty_metadata"
| "match_metadata (DictMatch s (Some md)) = md"

text \<open>\<^verbatim>\<open>meta.get(key, "")\<close> on a string field.\<close>

definition get_str :: "string option \<Rightarrow> string" where
  "get_str v = (case v of None \<Rightarrow> [] | Some s \<Rightarrow> s)"

definition new_SourceChunk :: "real \<Rightarrow> metadata \<Rightarrow> SourceChunk" where
  "new_SourceChunk sc meta =
     \<lparr>asset_id = get_str (md_asset_id meta),
      asset_type = get_str (md_asset_type meta),
      play_id = md_play_id meta,
      play_title = get_str (md_play_title meta),
      rep_title = get_str (md_rep_title meta),
      chunk_text = get_str (md_chunk_text meta),
      page_number = md_page_number meta,
      timestamp_start = md_timestamp_start meta,
      timestamp_end = md_timestamp_end meta,
      score = Some sc,
      section_id = md_section_id meta,
      heading = md_heading meta,
      feedback_score = md_feedback_score meta\<rparr>"

text \<open>The loop over \<^verbatim>\<open>raw_matches\<close>; \<open>thr\<close> is \<^verbatim>\<open>settings.similarity_threshold\<close>.\<close>

fun collect_chunks :: "real \<Rightarrow> pmatch list \<Rightarrow> SourceChunk list" where
  "collect_chunks thr [] = []"
| "collect_chunks thr (m # ms) =
     (if match_score m < thr then collect_chunks thr ms
      else new_SourceChunk (match_score m) (match_metadata m) # collect_chunks thr ms)"

definition retrieve_chunks :: "env \<Rightarrow> string \<Rightarrow> UserContext \<Rightarrow> string \<Rightarrow> SourceChunk list eff" where
  "retrieve_chunks E query ctx i =
     (if assigned_play_ids ctx = [] \<and> i \<noteq> ''performance_history'' then ret []
      else
        bind_eff (perform (EmbeddingCall query) (embeddings_create E query))
          (\<lambda>query_vector.
             let pinecone_filter = build_pinecone_filter ctx i
             in bind_eff
                  (perform (IndexQueryCall query_vector (pinecone_top_k E) pinecone_filter)
                     (index_query E query_vector (pinecone_top_k E) pinecone_filter))
                  (\<lambda>results.
                     let raw_matches = (case results of None \<Rightarrow> [] | Some ms \<Rightarrow> ms)
                     in ret (collect_chunks (similarity_threshold E) raw_matches))))"

section \<open>Answer generator\<close>

text \<open>\<^verbatim>\<open>backend/pipeline/generator.py\<close>.\<close>

definition SENTINEL :: string where
  "SENTINEL = ''INSUFFICIENT_CONTEXT''"

definition generate_grounded_answer :: "env \<Rightarrow> string \<Rightarrow> SourceChunk list \<Rightarrow> (string \<times> bool) eff" where
  "generate_grounded_answer E query chunks =
     bind_eff (perform (GroundedCall query chunks) (llm_grounded E query chunks))
       (\<lambda>content.
          let answer = strip content
          in if answer = SENTINEL then ret (answer, False) else ret (answer, True))"

definition generate_general_answer :: "env \<Rightarrow> string \<Rightarrow> string eff" where
  "generate_general_answer E query =
     bind_eff (perform (GeneralCall query) (llm_general E query))
       (\<lambda>content. ret (strip content))"

text \<open>
  The two streaming generators yield the increments whose text is not empty
  (\<^verbatim>\<open>if text: yield str(text)\<close>), and end with the provider's exception if it raises.
\<close>

definition stream_grounded_answer :: "env \<Rightarrow> string \<Rightarrow> SourceChunk list \<Rightarrow> string list \<times> error option" where
  "stream_grounded_answer E query chunks =
     (case astream_grounded E query chunks of (texts, r) \<Rightarrow> (filter (\<lambda>t. t \<noteq> []) texts, r))"

definition stream_general_answer :: "env \<Rightarrow> string \<Rightarrow> string list \<times> error option" where
  "stream_general_answer E query =
     (case astream_general E query of (texts, r) \<Rightarrow> (filter (\<lambda>t. t \<noteq> []) texts, r))"

section \<open>Orchestrator\<close>

text \<open>\<^verbatim>\<open>backend/pipeline/orchestrator.py\<close>.\<close>

definition OUT_OF_SCOPE_ANSWER :: string where
  "OUT_OF_SCOPE_ANSWER =
     ''I am a specialized search engine for your assigned BigSpring materials. '' @
     ''I cannot assist with queries outside of your professional scope.''"

definition TIER3_ANSWER :: string where
  "TIER3_ANSWER =
     ''I couldn'' @ [CHR 0x27] @ ''t find any specific information in your assigned training materials that '' @
     ''addresses this query. This may be because the topic isn'' @ [CHR 0x27] @ ''t covered in your current '' @
     ''plays, or your query may be too specific. Try rephrasing your question or explore '' @
     ''the recommendations below.''"

text \<open>
  \<^verbatim>\<open>_apply_mode\<close> assigns to the \<^verbatim>\<open>intent\<close> field of its argument in place; the model
  returns the updated record.
\<close>

definition apply_mode :: "IntentResult \<Rightarrow> string option \<Rightarrow> IntentResult" where
  "apply_mode intent_result mode =
     (if mode = Some ''knowledge'' then intent_result\<lparr>intent := ''assigned_knowledge''\<rparr>
      else if mode = Some ''performance'' then intent_result\<lparr>intent := ''performance_history''\<rparr>
      else intent_result)"

text \<open>Python's truth value of an \<^verbatim>\<open>Optional[str]\<close>: false for \<^verbatim>\<open>None\<close> and for \<^verbatim>\<open>""\<close>.\<close>

definition truthy :: "string option \<Rightarrow> bool" where
  "truthy v = (case v of None \<Rightarrow> False | Some s \<Rightarrow> s \<noteq> [])"

text \<open>\<^verbatim>\<open>_play_id_set_from_chunks\<close>: \<^verbatim>\<open>{c.play_id for c in chunks if c.play_id}\<close>.\<close>

definition play_id_set_from_chunks :: "SourceChunk list \<Rightarrow> string set" where
  "play_id_set_from_chunks chunks =
     set (List.map_filter (\<lambda>c. if truthy (play_id c) then play_id c else None) chunks)"

definition get_recommendations :: "env \<Rightarrow> UserContext \<Rightarrow> string set \<Rightarrow> string \<Rightarrow> Recommendation list eff" where
  "get_recommendations E ctx retrieved_play_ids query =
     perform (RecommenderCall ctx retrieved_play_ids query)
       (Inr (recommender E ctx retrieved_play_ids query))"

definition tier3_response :: "env \<Rightarrow> IntentResult \<Rightarrow> UserContext \<Rightarrow> string \<Rightarrow> SearchResponse eff" where
  "tier3_response E ir ctx query =
     bind_eff (get_recommendations E ctx {} query)
       (\<lambda>recs. ret \<lparr>sr_intent = ir, response_tier = ''tier3'', answer = TIER3_ANSWER,
                     sources = [], recommendations = recs\<rparr>)"

text \<open>\<^verbatim>\<open>Orchestrator.run\<close> after retrieval has returned \<open>chunks\<close>.\<close>

definition run_retrieved :: "env \<Rightarrow> IntentResult \<Rightarrow> UserContext \<Rightarrow> string \<Rightarrow> SourceChunk list \<Rightarrow> SearchResponse eff" where
  "run_retrieved E ir ctx query chunks =
     (if chunks = [] then tier3_response E ir ctx query
      else
        bind_eff (generate_grounded_answer E query chunks)
          (\<lambda>(ans, is_sufficient).
             if \<not> is_sufficient then tier3_response E ir ctx query
             else
               bind_eff (get_recommendations E ctx (play_id_set_from_chunks chunks) query)
                 (\<lambda>recs. ret \<lparr>sr_intent = ir, response_tier = ''grounded'', answer = ans,
                               sources = chunks, recommendations = recs\<rparr>)))"

text \<open>\<^verbatim>\<open>Orchestrator.run\<close> after classification and mode override.\<close>

definition run_classified :: "env \<Rightarrow> IntentResult \<Rightarrow> UserContext \<Rightarrow> string \<Rightarrow> SearchResponse eff" where
  "run_classified E ir ctx query =
     (if intent ir = ''out_of_scope'' then
        ret \<lparr>sr_intent = ir, response_tier = ''tier1'', answer = OUT_OF_SCOPE_ANSWER,
             sources = [], recommendations = []\<rparr>
      else if intent ir = ''general_professional'' then
        bind_eff (generate_general_answer E query)
          (\<lambda>ans. bind_eff (get_recommendations E ctx {} query)
             (\<lambda>recs. ret \<lparr>sr_intent = ir, response_tier = ''tier2'', answer = ans,
                           sources = [], recommendations = recs\<rparr>))
      else
        bind_eff (retrieve_chunks E query ctx (intent ir))
          (\<lambda>chunks. run_retrieved E ir ctx query chunks))"

definition run :: "env \<Rightarrow> string \<Rightarrow> string option \<Rightarrow> UserContext \<Rightarrow> SearchResponse eff" where
  "run E query mode ctx =
     bind_eff (classify_intent E query)
       (\<lambda>intent_result. run_classified E (apply_mode intent_result mode) ctx query)"

subsection \<open>Streaming\<close>

text \<open>
  The dicts \<^verbatim>\<open>run_stream\<close> passes to \<^verbatim>\<open>_sse\<close>, one constructor for each \<^verbatim>\<open>type\<close>:
  \<open>Meta intent response_tier sources recommendations\<close>, \<open>Chunk content\<close>,
  \<open>Done is_insufficient\<close> and \<open>ErrorFrame message\<close>.
\<close>

datatype frame =
    Meta IntentResult string "SourceChunk list" "Recommendation list"
  | Chunk string
  | Done bool
  | ErrorFrame string

text \<open>
  What the async generator does, in order: \<open>Call c\<close> is a call to a collaborator,
  \<open>Token t\<close> the arrival of one increment from a streaming generator, and \<open>Yield f\<close>
  the emission of a frame to the client.
\<close>

datatype step = Call call | Token string | Yield frame

type_synonym stream = "step list \<times> error option"

definition bind_stream :: "'a eff \<Rightarrow> ('a \<Rightarrow> stream) \<Rightarrow> stream" where
  "bind_stream m f =
     (case m of
        (t, Inl e) \<Rightarrow> (map Call t, Some e)
      | (t, Inr x) \<Rightarrow> (case f x of (s, r) \<Rightarrow> (map Call t @ s, r)))"

text \<open>Step 6 of \<^verbatim>\<open>run_stream\<close>: the grounded path, with \<open>chunks\<close> not empty.\<close>

definition stream_grounded :: "env \<Rightarrow> IntentResult \<Rightarrow> UserContext \<Rightarrow> string \<Rightarrow> SourceChunk list \<Rightarrow> stream" where
  "stream_grounded E ir ctx query chunks =
     bind_stream (get_recommendations E ctx (play_id_set_from_chunks chunks) query)
       (\<lambda>recs.
          case stream_grounded_answer E query chunks of
            (token_buffer, r) \<Rightarrow>
              ([Yield (Meta ir ''grounded'' chunks recs), Call (GroundedStreamCall query chunks)]
               @ map Token token_buffer
               @ (case r of
                    Some e \<Rightarrow> []
                  | None \<Rightarrow>
                      (let accumulated = concat token_buffer;
                           is_insufficient = (strip accumulated = SENTINEL)
                       in (if is_insufficient then [Yield (Chunk TIER3_ANSWER)]
                           else map (\<lambda>t. Yield (Chunk t)) token_buffer)
                          @ [Yield (Done is_insufficient)])),
               r))"

text \<open>The body of the \<^verbatim>\<open>try\<close> block of \<^verbatim>\<open>run_stream\<close> after classification and mode override.\<close>

definition stream_classified :: "env \<Rightarrow> IntentResult \<Rightarrow> UserContext \<Rightarrow> string \<Rightarrow> stream" where
  "stream_classified E ir ctx query =
     (if intent ir = ''out_of_scope'' then
        ([Yield (Meta ir ''tier1'' [] []), Yield (Chunk OUT_OF_SCOPE_ANSWER), Yield (Done False)],
         None)
      else if intent ir = ''general_professional'' then
        bind_stream (get_recommendations E ctx {} query)
          (\<lambda>recs.
             case stream_general_answer E query of
               (tokens, r) \<Rightarrow>
                 ([Yield (Meta ir ''tier2'' [] recs), Call (GeneralStreamCall query)]
                  @ concat (map (\<lambda>t. [Token t, Yield (Chunk t)]) tokens)
                  @ (case r of Some e \<Rightarrow> [] | None \<Rightarrow> [Yield (Done False)]),
                  r))
      else
        bind_stream (retrieve_chunks E query ctx (intent ir))
          (\<lambda>chunks.
             if chunks = [] then
               bind_stream (get_recommendations E ctx {} query)
                 (\<lambda>recs.
                    ([Yield (Meta ir ''tier3'' [] recs), Yield (Chunk TIER3_ANSWER),
                      Yield (Done False)],
                     None))
             else stream_grounded E ir ctx query chunks))"

text \<open>
  \<^verbatim>\<open>run_stream\<close>: an exception raised anywhere in the \<^verbatim>\<open>try\<close> block ends the stream
  with one error frame carrying its message.
\<close>

definition run_stream :: "env \<Rightarrow> string \<Rightarrow> string option \<Rightarrow> UserContext \<Rightarrow> step list" where
  "run_stream E query mode ctx =
     (case bind_stream (classify_intent E query)
             (\<lambda>intent_result. stream_classified E (apply_mode intent_result mode) ctx query) of
        (s, None) \<Rightarrow> s
      | (s, Some exc) \<Rightarrow> s @ [Yield (ErrorFrame (message exc))])"

text \<open>The frames the client receives, in emission order.\<close>

fun emitted :: "step list \<Rightarrow> frame list" where
  "emitted [] = []"
| "emitted (Yield f # ss) = f # emitted ss"
| "emitted (s # ss) = emitted ss"

text \<open>
  Buffering before relay, as a property of a run: once a chunk frame has been emitted
  (\<open>relayed\<close>), no further increment arrives from a generator.
\<close>

fun buffered_before_relay :: "bool \<Rightarrow> step list \<Rightarrow> bool" where
  "buffered_before_relay relayed [] = True"
| "buffered_before_relay relayed (Token t # ss) = (\<not> relayed \<and> buffered_before_relay relayed ss)"
| "buffered_before_relay relayed (Yield (Chunk c) # ss) = buffered_before_relay True ss"
| "buffered_before_relay relayed (s # ss) = buffered_before_relay relayed ss"

subsection \<open>Observations on a run\<close>

text \<open>The exclusion sets passed to the recommender by a sequence of calls, in call order.\<close>

fun exclusion_sets :: "call list \<Rightarrow> string set list" where
  "exclusion_sets [] = []"
| "exclusion_sets (RecommenderCall ctx s q # cs) = s # exclusion_sets cs"
| "exclusion_sets (c # cs) = exclusion_sets cs"

text \<open>
  The specification's wording of the exclusion set, to compare with
  \<open>play_id_set_from_chunks\<close>: the distinct play ids of the chunks that are not null.
\<close>

definition non_null_play_ids :: "SourceChunk list \<Rightarrow> string set" where
  "non_null_play_ids chunks = set (List.map_filter play_id chunks)"

section \<open>Example inputs\<close>

text \<open>Concrete contexts, stored records and collaborators on which the theorems are run.\<close>

definition ctx_veldra :: UserContext where
  "ctx_veldra =
     \<lparr>user_id = ''user-001'', username = ''avery'', display_name = ''Avery'',
      company_id = ''comp-veldra-001'', company_name = ''Veldra'',
      assigned_plays =
        [\<lparr>ap_play_id = ''play-001'', ap_play_title = ''GridMaster Basics'',
          ap_status = ''assigned'', ap_completed_at = None\<rparr>,
         \<lparr>ap_play_id = ''play-002'', ap_play_title = ''Objection Handling'',
          ap_status = ''in_progress'', ap_completed_at = None\<rparr>]\<rparr>"

definition ctx_aetheris :: UserContext where
  "ctx_aetheris =
     \<lparr>user_id = ''user-002'', username = ''blake'', display_name = ''Blake'',
      company_id = ''comp-aetheris-002'', company_name = ''Aetheris'',
      assigned_plays =
        [\<lparr>ap_play_id = ''play-001'', ap_play_title = ''GridMaster Basics'',
          ap_status = ''assigned'', ap_completed_at = None\<rparr>]\<rparr>"

definition ctx_unassigned :: UserContext where
  "ctx_unassigned =
     \<lparr>user_id = ''user-003'', username = ''casey'', display_name = ''Casey'',
      company_id = ''comp-veldra-001'', company_name = ''Veldra'', assigned_plays = []\<rparr>"

definition record_veldra :: "string \<rightharpoonup> string" where
  "record_veldra =
     map_of [(''company_id'', ''comp-veldra-001''), (''content_type'', ''knowledge''),
             (''play_id'', ''play-001'')]"

definition meta_gridmaster :: metadata where
  "meta_gridmaster =
     empty_metadata\<lparr>md_asset_id := Some ''asset-001'', md_asset_type := Some ''pdf'',
       md_play_id := Some ''play-001'', md_play_title := Some ''GridMaster Basics'',
       md_rep_title := Some ''Overview'', md_chunk_text := Some ''GridMaster balances load.'',
       md_page_number := Some 3\<rparr>"

definition demo_matches :: "pmatch list" where
  "demo_matches =
     [ScoredVector 0.6 meta_gridmaster,
      ScoredVector 0.2 empty_metadata,
      DictMatch (Some 0.4) (Some (meta_gridmaster\<lparr>md_page_number := Some 4\<rparr>)),
      DictMatch None None]"

definition demo_reply :: string where
  \<open>demo_reply =
     ''{"intent": "assigned_knowledge", "confidence": 0.95, "reasoning": "product question"}''\<close>

definition demo_parsed :: json where
  "demo_parsed =
     JObj [(''intent'', JStr ''assigned_knowledge''), (''confidence'', JNum 0.95),
           (''reasoning'', JStr ''product question'')]"

definition demo_recommender :: "UserContext \<Rightarrow> string set \<Rightarrow> string \<Rightarrow> Recommendation list" where
  "demo_recommender ctx retrieved_play_ids query =
     map (\<lambda>ap. \<lparr>rec_play_id = ap_play_id ap, rec_play_title = ap_play_title ap,
                 rec_rep_id = None, rec_rep_title = None, rec_status = ap_status ap,
                 rec_reason = ''assigned''\<rparr>)
       (filter (\<lambda>ap. ap_play_id ap \<notin> retrieved_play_ids) (assigned_plays ctx))"

definition demo_env :: env where
  "demo_env =
     \<lparr>llm_classify = (\<lambda>query. Inr demo_reply),
      loads = (\<lambda>s. if s = demo_reply then Some demo_parsed else None),
      float_of_str = (\<lambda>s. None),
      embeddings_create = (\<lambda>query. Inr [0.1, 0.2]),
      index_query = (\<lambda>v k f. Inr (Some demo_matches)),
      llm_grounded = (\<lambda>query chunks. Inr ''GridMaster balances load. [Source: GridMaster Basics]''),
      llm_general = (\<lambda>query. Inr ''Listen first.''),
      astream_grounded =
        (\<lambda>query chunks. ([''INSUFFICIENT'', [], ''_CONTEXT'', [CHR 0x0A]], None)),
      astream_general = (\<lambda>query. ([''Listen '', ''first.''], None)),
      recommender = demo_recommender,
      pinecone_top_k = 6,
      similarity_threshold = 0.35\<rparr>"

definition chunk_blank_play :: SourceChunk where
  "chunk_blank_play = new_SourceChunk 0.5 (empty_metadata\<lparr>md_play_id := Some []\<rparr>)"



definition env_insufficient :: env where
  "env_insufficient =
     demo_env\<lparr>llm_grounded := \<lambda>query chunks. Inr ('' INSUFFICIENT_CONTEXT'' @ [CHR 0x0A])\<rparr>"

definition demo_chunks :: "SourceChunk list" where
  "demo_chunks =
     [new_SourceChunk 0.6 meta_gridmaster,
      new_SourceChunk 0.4 (meta_gridmaster\<lparr>md_page_number := Some 4\<rparr>)]"

definition demo_response :: SearchResponse where
  "demo_response =
     \<lparr>sr_intent = \<lparr>intent = ''assigned_knowledge'', confidence = 0.95,
                   reasoning = ''product question''\<rparr>,
      response_tier = ''grounded'',
      answer = ''GridMaster balances load. [Source: GridMaster Basics]'',
      sources = demo_chunks,
      recommendations = demo_recommender ctx_veldra {''play-001''} ''What is GridMaster?''\<rparr>"

section \<open>The filter builder's guarantees\<close>

text \<open>
  C1. Whatever the user context and whatever the intent string (one of the five defined
  values or any other text), the filter that \<open>build_pinecone_filter\<close> returns is an
  \<open>And\<close> node whose first conjunct is the company fence
  \<open>Eq ''company_id'' (company_id ctx)\<close>.
\<close>

theorem build_pinecone_filter_company_fence_first:
  "\<exists>rest. build_pinecone_filter ctx i = And (Eq ''company_id'' (company_id ctx) # rest)"
  by (simp add: build_pinecone_filter_def submission_filter_def combined_filter_def
      knowledge_filter_def company_fence_def)

lemma matches_company_fence:
  "matches md (build_pinecone_filter ctx i) \<Longrightarrow> md ''company_id'' = Some (company_id ctx)"
  by (simp add: build_pinecone_filter_def submission_filter_def combined_filter_def
      knowledge_filter_def company_fence_def split: if_splits)

text \<open>
  C2. For two user contexts with different company ids and one intent, no stored record
  satisfies both filters: each filter requires the record's \<open>company_id\<close> to be that of
  its own context.
\<close>

theorem filters_of_distinct_companies_exclusive:
  "company_id a \<noteq> company_id b \<Longrightarrow>
     \<not> (matches md (build_pinecone_filter a i) \<and> matches md (build_pinecone_filter b i))"
  using matches_company_fence[of md a i] matches_company_fence[of md b i] by auto

theorem filters_of_distinct_companies_exclusive_witness:
  "company_id ctx_veldra \<noteq> company_id ctx_aetheris \<and>
   matches record_veldra (build_pinecone_filter ctx_veldra ''assigned_knowledge'') \<and>
   \<not> (matches record_veldra (build_pinecone_filter ctx_veldra ''assigned_knowledge'') \<and>
      matches record_veldra (build_pinecone_filter ctx_aetheris ''assigned_knowledge''))"
proof -
  have h: "company_id ctx_veldra \<noteq> company_id ctx_aetheris"
    by (simp add: ctx_veldra_def ctx_aetheris_def)
  have m: "matches record_veldra (build_pinecone_filter ctx_veldra ''assigned_knowledge'')"
    by (simp add: build_pinecone_filter_def knowledge_filter_def company_fence_def
        assigned_play_ids_def ctx_veldra_def record_veldra_def)
  from filters_of_distinct_companies_exclusive[OF h, of record_veldra "''assigned_knowledge''"]
    h m show ?thesis by blast
qed

text \<open>
  C3. The shape of the filter depends on the intent alone: \<open>performance_history\<close> gives
  the submission filter, \<open>combined\<close> the combined filter, and every other intent string,
  recognised or not, the knowledge filter.
\<close>

theorem build_pinecone_filter_selection:
  "(i = ''performance_history'' \<longrightarrow>
      build_pinecone_filter ctx i =
        And [Eq ''company_id'' (company_id ctx), Eq ''content_type'' ''submission'',
             Eq ''user_id'' (user_id ctx)]) \<and>
   (i = ''combined'' \<longrightarrow>
      build_pinecone_filter ctx i =
        And [Eq ''company_id'' (company_id ctx),
             Or [And [Eq ''content_type'' ''knowledge'', In ''play_id'' (assigned_play_ids ctx)],
                 And [Eq ''content_type'' ''submission'', Eq ''user_id'' (user_id ctx)]]]) \<and>
   (i \<noteq> ''performance_history'' \<and> i \<noteq> ''combined'' \<longrightarrow>
      build_pinecone_filter ctx i =
        And [Eq ''company_id'' (company_id ctx), Eq ''content_type'' ''knowledge'',
             In ''play_id'' (assigned_play_ids ctx)])"
  by (simp add: build_pinecone_filter_def submission_filter_def combined_filter_def
      knowledge_filter_def company_fence_def)

theorem build_pinecone_filter_selection_witness:
  "build_pinecone_filter ctx_veldra ''performance_history'' =
     And [Eq ''company_id'' ''comp-veldra-001'', Eq ''content_type'' ''submission'',
          Eq ''user_id'' ''user-001''] \<and>
   build_pinecone_filter ctx_veldra ''combined'' =
     And [Eq ''company_id'' ''comp-veldra-001'',
          Or [And [Eq ''content_type'' ''knowledge'', In ''play_id'' [''play-001'', ''play-002'']],
              And [Eq ''content_type'' ''submission'', Eq ''user_id'' ''user-001'']]] \<and>
   build_pinecone_filter ctx_veldra ''no_such_intent'' =
     And [Eq ''company_id'' ''comp-veldra-001'', Eq ''content_type'' ''knowledge'',
          In ''play_id'' [''play-001'', ''play-002'']]"
  using build_pinecone_filter_selection[of "''performance_history''" ctx_veldra]
    build_pinecone_filter_selection[of "''combined''" ctx_veldra]
    build_pinecone_filter_selection[of "''no_such_intent''" ctx_veldra]
  by (simp add: ctx_veldra_def assigned_play_ids_def)

section \<open>The retriever's guarantees\<close>




section \<open>The answer generator's guarantees\<close>

text \<open>
  C5. When the provider returns, \<open>generate_grounded_answer\<close> returns the stripped reply
  together with a flag that is false exactly when the stripped reply is the sentinel
  \<open>INSUFFICIENT_CONTEXT\<close>.
\<close>

theorem generate_grounded_answer_sentinel:
  "llm_grounded E q chunks = Inr content \<Longrightarrow>
     snd (generate_grounded_answer E q chunks) =
       Inr (strip content, strip content \<noteq> ''INSUFFICIENT_CONTEXT'')"
  by (simp add: generate_grounded_answer_def ret_def perform_def bind_eff_def Let_def SENTINEL_def)

theorem generate_grounded_answer_sentinel_witness:
  "snd (generate_grounded_answer env_insufficient ''What is GridMaster?'' []) =
     Inr (''INSUFFICIENT_CONTEXT'', False) \<and>
   snd (generate_grounded_answer demo_env ''What is GridMaster?'' []) =
     Inr (''GridMaster balances load. [Source: GridMaster Basics]'', True)"
proof -
  have a: "llm_grounded env_insufficient ''What is GridMaster?'' [] =
             Inr ('' INSUFFICIENT_CONTEXT'' @ [CHR 0x0A])"
    by (simp add: env_insufficient_def)
  have b: "llm_grounded demo_env ''What is GridMaster?'' [] =
             Inr ''GridMaster balances load. [Source: GridMaster Basics]''"
    by (simp add: demo_env_def)
  from generate_grounded_answer_sentinel[OF a] generate_grounded_answer_sentinel[OF b]
  show ?thesis by (simp add: strip_def isspace_def)
qed

section \<open>The classifier's guarantees\<close>







lemma strip_demo_reply: "strip demo_reply = demo_reply"
  by (simp add: strip_def isspace_def demo_reply_def)

lemma strip_fences_demo_reply: "strip_fences demo_reply = Inr demo_reply"
  by (simp add: strip_fences_def strip_demo_reply) (simp add: startswith_def FENCE_def demo_reply_def)


lemma try_parse_demo_reply:
  "loads E demo_reply = Some demo_parsed \<Longrightarrow>
   try_parse E demo_reply =
     Some \<lparr>intent = ''assigned_knowledge'', confidence = 0.95, reasoning = ''product question''\<rparr>"
  by (simp add: try_parse_def demo_parsed_def get_or_def INTENTS_def)



section \<open>The orchestrator's guarantees\<close>

subsection \<open>The paths of \<open>run\<close>\<close>

lemma bind_eff_Inr:
  "bind_eff m f = (t, Inr y) \<Longrightarrow> \<exists>t1 x t2. m = (t1, Inr x) \<and> f x = (t2, Inr y) \<and> t = t1 @ t2"
  by (auto simp: bind_eff_def split: prod.splits sum.splits)

lemma exclusion_sets_append: "exclusion_sets (a @ b) = exclusion_sets a @ exclusion_sets b"
  by (induction a rule: exclusion_sets.induct) simp_all

lemma classify_intent_calls: "fst (classify_intent E q) = [ClassifierCall q]"
  by (simp add: classify_intent_def bind_eff_def perform_def split: sum.splits prod.splits)

lemma retrieve_chunks_no_recommender: "exclusion_sets (fst (retrieve_chunks E q ctx i)) = []"
  by (simp add: retrieve_chunks_def bind_eff_def perform_def ret_def Let_def
      split: sum.splits prod.splits)

lemma tier3_response_eq:
  "tier3_response E ir ctx q =
     ([RecommenderCall ctx {} q],
      Inr \<lparr>sr_intent = ir, response_tier = ''tier3'', answer = TIER3_ANSWER, sources = [],
           recommendations = recommender E ctx {} q\<rparr>)"
  by (simp add: tier3_response_def get_recommendations_def bind_eff_def perform_def ret_def)

lemma generate_grounded_answer_Inr:
  assumes "generate_grounded_answer E q chunks = (t, Inr (ans, ok))"
  shows "t = [GroundedCall q chunks]"
  using assms
  by (simp add: generate_grounded_answer_def bind_eff_def perform_def ret_def Let_def
      split: sum.splits if_splits)

lemma run_retrieved_cases:
  assumes "run_retrieved E ir ctx q chunks = (t, Inr resp)"
  shows "sr_intent resp = ir \<and>
         ((response_tier resp = ''tier3'' \<and> sources resp = [] \<and> exclusion_sets t = [{}]) \<or>
          (response_tier resp = ''grounded'' \<and> sources resp = chunks \<and> chunks \<noteq> [] \<and>
           exclusion_sets t = [play_id_set_from_chunks chunks]))"
proof (cases "chunks = []")
  case True
  with assms have "tier3_response E ir ctx q = (t, Inr resp)" by (simp add: run_retrieved_def)
  then show ?thesis by (auto simp: tier3_response_eq)
next
  case ne: False
  with assms have b: "bind_eff (generate_grounded_answer E q chunks)
          (\<lambda>(ans, is_sufficient).
             if \<not> is_sufficient then tier3_response E ir ctx q
             else
               bind_eff (get_recommendations E ctx (play_id_set_from_chunks chunks) q)
                 (\<lambda>recs. ret \<lparr>sr_intent = ir, response_tier = ''grounded'', answer = ans,
                               sources = chunks, recommendations = recs\<rparr>)) = (t, Inr resp)"
    by (simp add: run_retrieved_def)
  from bind_eff_Inr[OF b] obtain t1 x t2 where
    g: "generate_grounded_answer E q chunks = (t1, Inr x)"
    and k: "(case x of (ans, is_sufficient) \<Rightarrow>
             if \<not> is_sufficient then tier3_response E ir ctx q
             else bind_eff (get_recommendations E ctx (play_id_set_from_chunks chunks) q)
                 (\<lambda>recs. ret \<lparr>sr_intent = ir, response_tier = ''grounded'', answer = ans,
                               sources = chunks, recommendations = recs\<rparr>)) = (t2, Inr resp)"
    and t: "t = t1 @ t2"
    by blast
  obtain ans ok where x: "x = (ans, ok)" by (cases x)
  from g x have t1: "t1 = [GroundedCall q chunks]" using generate_grounded_answer_Inr by blast
  show ?thesis
  proof (cases ok)
    case False
    with k x have "tier3_response E ir ctx q = (t2, Inr resp)" by simp
    with t t1 show ?thesis by (auto simp: tier3_response_eq)
  next
    case True
    with k x have "t2 = [RecommenderCall ctx (play_id_set_from_chunks chunks) q]"
      and "resp = \<lparr>sr_intent = ir, response_tier = ''grounded'', answer = ans,
                   sources = chunks, recommendations =
                     recommender E ctx (play_id_set_from_chunks chunks) q\<rparr>"
      by (auto simp: get_recommendations_def bind_eff_def perform_def ret_def)
    with t t1 ne show ?thesis by simp
  qed
qed

lemma general_path_cases:
  assumes "bind_eff (generate_general_answer E q)
          (\<lambda>ans. bind_eff (get_recommendations E ctx {} q)
             (\<lambda>recs. ret \<lparr>sr_intent = ir, response_tier = ''tier2'', answer = ans,
                           sources = [], recommendations = recs\<rparr>)) = (t, Inr resp)"
  shows "sr_intent resp = ir \<and> response_tier resp = ''tier2'' \<and> sources resp = [] \<and>
         exclusion_sets t = [{}]"
proof -
  from bind_eff_Inr[OF assms] obtain t1 ans t2 where
    g: "generate_general_answer E q = (t1, Inr ans)"
    and k: "bind_eff (get_recommendations E ctx {} q)
             (\<lambda>recs. ret \<lparr>sr_intent = ir, response_tier = ''tier2'', answer = ans,
                           sources = [], recommendations = recs\<rparr>) = (t2, Inr resp)"
    and t: "t = t1 @ t2" by blast
  from g have t1: "t1 = [GeneralCall q]"
    by (simp add: generate_general_answer_def bind_eff_def perform_def ret_def split: sum.splits)
  from k have "t2 = [RecommenderCall ctx {} q]"
    and "resp = \<lparr>sr_intent = ir, response_tier = ''tier2'', answer = ans,
                   sources = [], recommendations = recommender E ctx {} q\<rparr>"
    by (auto simp: get_recommendations_def bind_eff_def perform_def ret_def)
  with t t1 show ?thesis by simp
qed

lemma run_classified_cases:
  assumes "run_classified E ir ctx q = (t, Inr resp)"
  shows "sr_intent resp = ir \<and>
         ((response_tier resp = ''tier1'' \<and> sources resp = [] \<and> exclusion_sets t = []) \<or>
          (response_tier resp = ''tier2'' \<and> sources resp = [] \<and> exclusion_sets t = [{}]) \<or>
          (response_tier resp = ''tier3'' \<and> sources resp = [] \<and> exclusion_sets t = [{}]) \<or>
          (response_tier resp = ''grounded'' \<and> sources resp \<noteq> [] \<and>
           exclusion_sets t = [play_id_set_from_chunks (sources resp)] \<and>
           (\<exists>t1. retrieve_chunks E q ctx (intent ir) = (t1, Inr (sources resp)))))"
proof (cases "intent ir = ''out_of_scope''")
  case True
  with assms have "t = []" and "resp = \<lparr>sr_intent = ir, response_tier = ''tier1'',
      answer = OUT_OF_SCOPE_ANSWER, sources = [], recommendations = []\<rparr>"
    by (simp_all add: run_classified_def ret_def)
  then show ?thesis by simp
next
  case oos: False
  show ?thesis
  proof (cases "intent ir = ''general_professional''")
    case True
    with assms oos have "bind_eff (generate_general_answer E q)
          (\<lambda>ans. bind_eff (get_recommendations E ctx {} q)
             (\<lambda>recs. ret \<lparr>sr_intent = ir, response_tier = ''tier2'', answer = ans,
                           sources = [], recommendations = recs\<rparr>)) = (t, Inr resp)"
      by (simp add: run_classified_def)
    from general_path_cases[OF this] show ?thesis by simp
  next
    case False
    with assms oos have b: "bind_eff (retrieve_chunks E q ctx (intent ir))
        (\<lambda>chunks. run_retrieved E ir ctx q chunks) = (t, Inr resp)"
      by (simp add: run_classified_def)
    from bind_eff_Inr[OF b] obtain t1 chunks t2 where
      r: "retrieve_chunks E q ctx (intent ir) = (t1, Inr chunks)"
      and rr: "run_retrieved E ir ctx q chunks = (t2, Inr resp)" and t: "t = t1 @ t2"
      by blast
    from retrieve_chunks_no_recommender[of E q ctx "intent ir"] r
    have "exclusion_sets t1 = []" by simp
    with t have e: "exclusion_sets t = exclusion_sets t2" by (simp add: exclusion_sets_append)
    from run_retrieved_cases[OF rr] e r show ?thesis by auto
  qed
qed

lemma run_cases:
  assumes "run E q m ctx = (t, Inr resp)"
  shows "\<exists>ir0 t'. classify_intent E q = ([ClassifierCall q], Inr ir0) \<and>
           run_classified E (apply_mode ir0 m) ctx q = (t', Inr resp) \<and>
           exclusion_sets t = exclusion_sets t'"
proof -
  from assms have b: "bind_eff (classify_intent E q)
       (\<lambda>intent_result. run_classified E (apply_mode intent_result m) ctx q) = (t, Inr resp)"
    by (simp add: run_def)
  from bind_eff_Inr[OF b] obtain t1 ir0 t2 where c: "classify_intent E q = (t1, Inr ir0)"
    and rc: "run_classified E (apply_mode ir0 m) ctx q = (t2, Inr resp)" and t: "t = t1 @ t2"
    by blast
  from classify_intent_calls[of E q] c have "t1 = [ClassifierCall q]" by simp
  with c rc t show ?thesis by (auto simp: exclusion_sets_append)
qed

subsection \<open>Two requests, evaluated\<close>

lemma demo_classify:
  "classify_intent demo_env ''What is GridMaster?'' =
     ([ClassifierCall ''What is GridMaster?''],
      Inr \<lparr>intent = ''assigned_knowledge'', confidence = 0.95,
           reasoning = ''product question''\<rparr>)"
proof -
  have l: "loads demo_env demo_reply = Some demo_parsed" by (simp add: demo_env_def)
  have c: "llm_classify demo_env ''What is GridMaster?'' = Inr demo_reply"
    by (simp add: demo_env_def)
  show ?thesis
    by (simp add: classify_intent_def classify_reply_def c strip_fences_demo_reply
        try_parse_demo_reply[OF l] bind_eff_def perform_def)
qed

lemma demo_retrieve:
  "retrieve_chunks demo_env ''What is GridMaster?'' ctx_veldra ''assigned_knowledge'' =
     ([EmbeddingCall ''What is GridMaster?'',
       IndexQueryCall [0.1, 0.2] 6 (build_pinecone_filter ctx_veldra ''assigned_knowledge'')],
      Inr demo_chunks)"
proof -
  have a: "assigned_play_ids ctx_veldra \<noteq> []"
    by (simp add: assigned_play_ids_def ctx_veldra_def)
  have c: "collect_chunks (7 / 20) demo_matches = demo_chunks"
    by (simp add: demo_matches_def demo_chunks_def)
  show ?thesis
    by (simp add: retrieve_chunks_def a bind_eff_def perform_def ret_def Let_def)
      (simp add: demo_env_def c)
qed

lemma demo_play_ids: "play_id_set_from_chunks demo_chunks = {''play-001''}"
  by (simp add: play_id_set_from_chunks_def demo_chunks_def new_SourceChunk_def
      meta_gridmaster_def empty_metadata_def truthy_def map_filter_simps)

lemma demo_grounded:
  "generate_grounded_answer demo_env ''What is GridMaster?'' demo_chunks =
     ([GroundedCall ''What is GridMaster?'' demo_chunks],
      Inr (''GridMaster balances load. [Source: GridMaster Basics]'', True))"
proof -
  have c: "llm_grounded demo_env ''What is GridMaster?'' demo_chunks =
             Inr ''GridMaster balances load. [Source: GridMaster Basics]''"
    by (simp add: demo_env_def)
  have s: "strip ''GridMaster balances load. [Source: GridMaster Basics]'' =
             ''GridMaster balances load. [Source: GridMaster Basics]''"
    by (simp add: strip_def isspace_def)
  show ?thesis
    by (simp add: generate_grounded_answer_def c s bind_eff_def perform_def ret_def SENTINEL_def)
qed

lemma demo_chunks_nonempty: "demo_chunks \<noteq> []"
  by (simp add: demo_chunks_def)

lemma demo_run_grounded:
  "run demo_env ''What is GridMaster?'' None ctx_veldra =
     ([ClassifierCall ''What is GridMaster?'',
       EmbeddingCall ''What is GridMaster?'',
       IndexQueryCall [0.1, 0.2] 6 (build_pinecone_filter ctx_veldra ''assigned_knowledge''),
       GroundedCall ''What is GridMaster?'' demo_chunks,
       RecommenderCall ctx_veldra {''play-001''} ''What is GridMaster?''],
      Inr demo_response)"
  by (simp add: run_def demo_classify apply_mode_def run_classified_def demo_retrieve
      run_retrieved_def demo_chunks_nonempty demo_grounded demo_play_ids
      get_recommendations_def bind_eff_def perform_def ret_def demo_response_def)
    (simp add: demo_env_def)

lemma demo_run_tier3:
  "run demo_env ''What is GridMaster?'' None ctx_unassigned =
     ([ClassifierCall ''What is GridMaster?'',
       RecommenderCall ctx_unassigned {} ''What is GridMaster?''],
      Inr \<lparr>sr_intent = \<lparr>intent = ''assigned_knowledge'', confidence = 0.95,
                        reasoning = ''product question''\<rparr>,
           response_tier = ''tier3'', answer = TIER3_ANSWER, sources = [],
           recommendations = []\<rparr>)"
proof -
  have r: "retrieve_chunks demo_env ''What is GridMaster?'' ctx_unassigned ''assigned_knowledge'' =
             ([], Inr [])"
    by (simp add: retrieve_chunks_def assigned_play_ids_def ctx_unassigned_def ret_def)
  have d: "recommender demo_env ctx_unassigned {} ''What is GridMaster?'' = []"
    by (simp add: demo_env_def demo_recommender_def ctx_unassigned_def)
  show ?thesis
    by (simp add: run_def demo_classify apply_mode_def run_classified_def r
        run_retrieved_def tier3_response_eq d bind_eff_def)
qed

subsection \<open>Mode override\<close>



subsection \<open>Exclusion set\<close>

lemma play_id_set_char:
  "play_id_set_from_chunks chunks = {p. p \<noteq> [] \<and> (\<exists>c \<in> set chunks. play_id c = Some p)}"
  unfolding play_id_set_from_chunks_def
  by (induction chunks) (auto simp: map_filter_simps truthy_def split: option.splits if_splits)

text \<open>
  The claim C9 as written takes every non-null play id. A chunk whose play id is the
  empty string has a non-null play id that the comprehension's truth test drops.
\<close>

theorem play_id_set_blank_counterexample:
  "play_id chunk_blank_play = Some [] \<and>
   non_null_play_ids [chunk_blank_play] = {[]} \<and>
   play_id_set_from_chunks [chunk_blank_play] = {} \<and>
   play_id_set_from_chunks [chunk_blank_play] \<noteq> non_null_play_ids [chunk_blank_play]"
  by (simp add: chunk_blank_play_def new_SourceChunk_def non_null_play_ids_def
      play_id_set_from_chunks_def truthy_def map_filter_simps)

text \<open>
  C9, as the code has it. The set extracted from a chunk list is the set of play ids
  that are neither null nor empty (so duplicates collapse, and a list without such ids
  gives the empty set). A run that returns the grounded tier has passed exactly this set
  of its sources to the recommender, once; a run that returns tier2 or tier3 has passed
  the empty set, once.
\<close>

theorem exclusion_set_of_run:
  "play_id_set_from_chunks chunks =
     {p. p \<noteq> [] \<and> (\<exists>c \<in> set chunks. play_id c = Some p)} \<and>
   ((\<forall>c \<in> set chunks. play_id c = None) \<longrightarrow> play_id_set_from_chunks chunks = {}) \<and>
   (run E q m ctx = (t, Inr resp) \<longrightarrow>
      (response_tier resp = ''grounded'' \<longrightarrow>
         exclusion_sets t = [play_id_set_from_chunks (sources resp)]) \<and>
      (response_tier resp = ''tier2'' \<or> response_tier resp = ''tier3'' \<longrightarrow>
         exclusion_sets t = [{}]))"
proof -
  have r: "run E q m ctx = (t, Inr resp) \<longrightarrow>
      (response_tier resp = ''grounded'' \<longrightarrow>
         exclusion_sets t = [play_id_set_from_chunks (sources resp)]) \<and>
      (response_tier resp = ''tier2'' \<or> response_tier resp = ''tier3'' \<longrightarrow>
         exclusion_sets t = [{}])"
  proof
    assume "run E q m ctx = (t, Inr resp)"
    from run_cases[OF this] obtain ir0 t' where
      rc: "run_classified E (apply_mode ir0 m) ctx q = (t', Inr resp)" and
      e: "exclusion_sets t = exclusion_sets t'" by blast
    from run_classified_cases[OF rc] e
    show "(response_tier resp = ''grounded'' \<longrightarrow>
         exclusion_sets t = [play_id_set_from_chunks (sources resp)]) \<and>
      (response_tier resp = ''tier2'' \<or> response_tier resp = ''tier3'' \<longrightarrow>
         exclusion_sets t = [{}])" by auto
  qed
  have n: "(\<forall>c \<in> set chunks. play_id c = None) \<longrightarrow> play_id_set_from_chunks chunks = {}"
    by (auto simp: play_id_set_char)
  from r n play_id_set_char[of chunks] show ?thesis by blast
qed

theorem exclusion_set_of_run_witness:
  "play_id_set_from_chunks (chunk_blank_play # demo_chunks) = {''play-001''} \<and>
   play_id_set_from_chunks [new_SourceChunk 0.5 empty_metadata] = {} \<and>
   response_tier demo_response = ''grounded'' \<and>
   exclusion_sets (fst (run demo_env ''What is GridMaster?'' None ctx_veldra)) =
     [{''play-001''}] \<and>
   exclusion_sets (fst (run demo_env ''What is GridMaster?'' None ctx_unassigned)) = [{}]"
proof -
  have g: "response_tier demo_response = ''grounded''"
    and s: "sources demo_response = demo_chunks"
    by (simp_all add: demo_response_def)
  from exclusion_set_of_run[of "chunk_blank_play # demo_chunks"]
  have 1: "play_id_set_from_chunks (chunk_blank_play # demo_chunks) = {''play-001''}"
    by (auto simp: chunk_blank_play_def demo_chunks_def new_SourceChunk_def
        meta_gridmaster_def empty_metadata_def)
  have "\<forall>c \<in> set [new_SourceChunk 0.5 empty_metadata]. play_id c = None"
    by (simp add: new_SourceChunk_def empty_metadata_def)
  with exclusion_set_of_run[of "[new_SourceChunk 0.5 empty_metadata]"]
  have 2: "play_id_set_from_chunks [new_SourceChunk 0.5 empty_metadata] = {}"
    by blast
  from exclusion_set_of_run[of "[]" demo_env "''What is GridMaster?''" None ctx_veldra _
      demo_response] demo_run_grounded g s demo_play_ids
  have 3: "exclusion_sets (fst (run demo_env ''What is GridMaster?'' None ctx_veldra)) =
     [{''play-001''}]"
    by simp
  from exclusion_set_of_run[of "[]" demo_env "''What is GridMaster?''" None ctx_unassigned]
    demo_run_tier3
  have 4: "exclusion_sets (fst (run demo_env ''What is GridMaster?'' None ctx_unassigned)) = [{}]"
    by simp
  from 1 2 3 4 g show ?thesis by blast
qed

subsection \<open>Sources and tier\<close>

text \<open>
  C10. In every response that \<open>run\<close> returns, the sources are non-empty exactly when the
  tier is \<open>grounded\<close>: tier1, tier2 and tier3 carry no source, and the grounded tier
  carries the whole, non-empty list that retrieval returned for the overridden intent.
\<close>

theorem run_sources_iff_grounded:
  assumes "run E q m ctx = (t, Inr resp)"
  shows "(sources resp \<noteq> [] \<longleftrightarrow> response_tier resp = ''grounded'') \<and>
         (response_tier resp = ''tier1'' \<or> response_tier resp = ''tier2'' \<or>
          response_tier resp = ''tier3'' \<longrightarrow> sources resp = []) \<and>
         (response_tier resp = ''tier1'' \<or> response_tier resp = ''tier2'' \<or>
          response_tier resp = ''tier3'' \<or> response_tier resp = ''grounded'') \<and>
         (response_tier resp = ''grounded'' \<longrightarrow>
            (\<exists>ir0 t1. classify_intent E q = ([ClassifierCall q], Inr ir0) \<and>
               retrieve_chunks E q ctx (intent (apply_mode ir0 m)) = (t1, Inr (sources resp))))"
proof -
  from run_cases[OF assms] obtain ir0 t' where
    c: "classify_intent E q = ([ClassifierCall q], Inr ir0)" and
    rc: "run_classified E (apply_mode ir0 m) ctx q = (t', Inr resp)" by blast
  from run_classified_cases[OF rc] c show ?thesis by auto
qed

theorem run_sources_iff_grounded_witness:
  "run demo_env ''What is GridMaster?'' None ctx_veldra =
     ([ClassifierCall ''What is GridMaster?'',
       EmbeddingCall ''What is GridMaster?'',
       IndexQueryCall [0.1, 0.2] 6 (build_pinecone_filter ctx_veldra ''assigned_knowledge''),
       GroundedCall ''What is GridMaster?'' demo_chunks,
       RecommenderCall ctx_veldra {''play-001''} ''What is GridMaster?''],
      Inr demo_response) \<and>
   response_tier demo_response = ''grounded'' \<and>
   sources demo_response \<noteq> [] \<and>
   (\<exists>resp. snd (run demo_env ''What is GridMaster?'' None ctx_unassigned) = Inr resp \<and>
      response_tier resp = ''tier3'' \<and> sources resp = [])"
proof -
  have g: "response_tier demo_response = ''grounded''"
    by (simp add: demo_response_def)
  from run_sources_iff_grounded[OF demo_run_grounded] g
  have 1: "sources demo_response \<noteq> []" by blast
  let ?r3 = "\<lparr>sr_intent = \<lparr>intent = ''assigned_knowledge'', confidence = 0.95,
                        reasoning = ''product question''\<rparr>,
           response_tier = ''tier3'', answer = TIER3_ANSWER, sources = [],
           recommendations = []\<rparr>"
  have t3: "response_tier ?r3 = ''tier3''" by simp
  from run_sources_iff_grounded[OF demo_run_tier3] t3
  have "sources ?r3 = []" by blast
  with demo_run_tier3 t3
  have 2: "\<exists>resp. snd (run demo_env ''What is GridMaster?'' None ctx_unassigned) = Inr resp \<and>
      response_tier resp = ''tier3'' \<and> sources resp = []"
    by simp
  from demo_run_grounded g 1 2 show ?thesis by blast
qed

subsection \<open>Streaming: the insufficient-context path\<close>

lemma emitted_append: "emitted (a @ b) = emitted a @ emitted b"
  by (induction a rule: emitted.induct) simp_all

lemma emitted_calls: "emitted (map Call t) = []"
  by (induction t) simp_all

lemma emitted_tokens: "emitted (map Token ts) = []"
  by (induction ts) simp_all

lemma buffered_calls:
  "buffered_before_relay b (map Call t @ ss) = buffered_before_relay b ss"
  by (induction t) simp_all

lemma buffered_tokens:
  "buffered_before_relay False (map Token ts @ ss) = buffered_before_relay False ss"
  by (induction ts) simp_all

lemma buffered_chunks:
  "buffered_before_relay b (map (\<lambda>t. Yield (Chunk t)) ts @ [Yield (Done d)])"
  by (induction ts arbitrary: b) simp_all

text \<open>The predicate tells the two relaying disciplines apart: relaying each increment as it
  arrives, as the general path does, is not buffering.\<close>

lemma relay_on_arrival_not_buffered:
  "\<not> buffered_before_relay False [Token a, Yield (Chunk a), Token b, Yield (Chunk b)]"
  by simp

lemma stream_grounded_steps:
  assumes "stream_grounded_answer E q chunks = (token_buffer, outcome)"
  shows "stream_grounded E ir ctx q chunks =
     ([Call (RecommenderCall ctx (play_id_set_from_chunks chunks) q),
       Yield (Meta ir ''grounded'' chunks (recommender E ctx (play_id_set_from_chunks chunks) q)),
       Call (GroundedStreamCall q chunks)]
      @ map Token token_buffer
      @ (case outcome of
           Some e \<Rightarrow> []
         | None \<Rightarrow>
             (if strip (concat token_buffer) = SENTINEL then [Yield (Chunk TIER3_ANSWER)]
              else map (\<lambda>t. Yield (Chunk t)) token_buffer)
             @ [Yield (Done (strip (concat token_buffer) = SENTINEL))]),
      outcome)"
  using assms
  by (cases outcome)
    (simp_all add: stream_grounded_def get_recommendations_def bind_stream_def perform_def Let_def)

lemma run_stream_grounded_steps:
  assumes c: "classify_intent E q = (t1, Inr ir0)"
    and o: "intent (apply_mode ir0 m) \<noteq> ''out_of_scope''"
    and g: "intent (apply_mode ir0 m) \<noteq> ''general_professional''"
    and r: "retrieve_chunks E q ctx (intent (apply_mode ir0 m)) = (t2, Inr chunks)"
    and ne: "chunks \<noteq> []"
    and s: "stream_grounded_answer E q chunks = (token_buffer, outcome)"
  shows "run_stream E q m ctx =
     map Call t1 @ map Call t2 @
     [Call (RecommenderCall ctx (play_id_set_from_chunks chunks) q),
      Yield (Meta (apply_mode ir0 m) ''grounded'' chunks
               (recommender E ctx (play_id_set_from_chunks chunks) q)),
      Call (GroundedStreamCall q chunks)]
     @ map Token token_buffer
     @ (case outcome of
          Some e \<Rightarrow> [Yield (ErrorFrame (message e))]
        | None \<Rightarrow>
            (if strip (concat token_buffer) = SENTINEL then [Yield (Chunk TIER3_ANSWER)]
             else map (\<lambda>t. Yield (Chunk t)) token_buffer)
            @ [Yield (Done (strip (concat token_buffer) = SENTINEL))])"
proof -
  have "stream_classified E (apply_mode ir0 m) ctx q =
          (case stream_grounded E (apply_mode ir0 m) ctx q chunks of
             (ss, out) \<Rightarrow> (map Call t2 @ ss, out))"
    using o g r ne by (simp add: stream_classified_def bind_stream_def)
  then show ?thesis
    using c by (cases outcome)
      (simp_all add: run_stream_def bind_stream_def stream_grounded_steps[OF s])
qed

text \<open>
  C6. On the grounded path of \<open>run_stream\<close> (classification and retrieval have returned,
  the overridden intent is neither \<open>out_of_scope\<close> nor \<open>general_professional\<close>, and the
  chunk list is not empty) every increment of the generator arrives before any chunk
  frame is emitted. If moreover the generator ends normally and its stripped, joined
  output is \<open>INSUFFICIENT_CONTEXT\<close>, the run is: the calls of classification and
  retrieval, the recommender call, the meta frame with tier \<open>grounded\<close> and the retrieved
  chunks as sources, the arrival of all increments, one chunk frame with the tier3 text,
  and the done frame with \<open>is_insufficient\<close> true; so the client receives exactly these
  three frames, none of which is a chunk frame with the sentinel.
\<close>

theorem run_stream_insufficient_context:
  assumes c: "classify_intent E q = (t1, Inr ir0)"
    and o: "intent (apply_mode ir0 m) \<noteq> ''out_of_scope''"
    and g: "intent (apply_mode ir0 m) \<noteq> ''general_professional''"
    and r: "retrieve_chunks E q ctx (intent (apply_mode ir0 m)) = (t2, Inr chunks)"
    and ne: "chunks \<noteq> []"
    and s: "stream_grounded_answer E q chunks = (token_buffer, outcome)"
  shows "buffered_before_relay False (run_stream E q m ctx) \<and>
         (outcome = None \<and> strip (concat token_buffer) = ''INSUFFICIENT_CONTEXT'' \<longrightarrow>
            run_stream E q m ctx =
              map Call t1 @ map Call t2 @
              [Call (RecommenderCall ctx (play_id_set_from_chunks chunks) q),
               Yield (Meta (apply_mode ir0 m) ''grounded'' chunks
                        (recommender E ctx (play_id_set_from_chunks chunks) q)),
               Call (GroundedStreamCall q chunks)]
              @ map Token token_buffer
              @ [Yield (Chunk TIER3_ANSWER), Yield (Done True)] \<and>
            emitted (run_stream E q m ctx) =
              [Meta (apply_mode ir0 m) ''grounded'' chunks
                 (recommender E ctx (play_id_set_from_chunks chunks) q),
               Chunk TIER3_ANSWER, Done True] \<and>
            Chunk ''INSUFFICIENT_CONTEXT'' \<notin> set (emitted (run_stream E q m ctx)))"
proof -
  note steps = run_stream_grounded_steps[OF c o g r ne s]
  have b: "buffered_before_relay False (run_stream E q m ctx)"
    by (cases outcome)
      (simp_all add: steps buffered_calls buffered_tokens buffered_chunks)
  have t3: "TIER3_ANSWER \<noteq> ''INSUFFICIENT_CONTEXT''"
    by (simp add: TIER3_ANSWER_def)
  have "outcome = None \<and> strip (concat token_buffer) = ''INSUFFICIENT_CONTEXT'' \<longrightarrow>
            run_stream E q m ctx =
              map Call t1 @ map Call t2 @
              [Call (RecommenderCall ctx (play_id_set_from_chunks chunks) q),
               Yield (Meta (apply_mode ir0 m) ''grounded'' chunks
                        (recommender E ctx (play_id_set_from_chunks chunks) q)),
               Call (GroundedStreamCall q chunks)]
              @ map Token token_buffer
              @ [Yield (Chunk TIER3_ANSWER), Yield (Done True)] \<and>
            emitted (run_stream E q m ctx) =
              [Meta (apply_mode ir0 m) ''grounded'' chunks
                 (recommender E ctx (play_id_set_from_chunks chunks) q),
               Chunk TIER3_ANSWER, Done True] \<and>
            Chunk ''INSUFFICIENT_CONTEXT'' \<notin> set (emitted (run_stream E q m ctx))"
  proof
    assume a: "outcome = None \<and> strip (concat token_buffer) = ''INSUFFICIENT_CONTEXT''"
    then have eq: "run_stream E q m ctx =
              map Call t1 @ map Call t2 @
              [Call (RecommenderCall ctx (play_id_set_from_chunks chunks) q),
               Yield (Meta (apply_mode ir0 m) ''grounded'' chunks
                        (recommender E ctx (play_id_set_from_chunks chunks) q)),
               Call (GroundedStreamCall q chunks)]
              @ map Token token_buffer
              @ [Yield (Chunk TIER3_ANSWER), Yield (Done True)]"
      by (simp add: steps SENTINEL_def)
    have em: "emitted (run_stream E q m ctx) =
              [Meta (apply_mode ir0 m) ''grounded'' chunks
                 (recommender E ctx (play_id_set_from_chunks chunks) q),
               Chunk TIER3_ANSWER, Done True]"
      by (simp add: eq emitted_append emitted_calls emitted_tokens)
    from t3 have "Chunk ''INSUFFICIENT_CONTEXT'' \<notin> set (emitted (run_stream E q m ctx))"
      by (simp add: em)
    with eq em show "run_stream E q m ctx =
              map Call t1 @ map Call t2 @
              [Call (RecommenderCall ctx (play_id_set_from_chunks chunks) q),
               Yield (Meta (apply_mode ir0 m) ''grounded'' chunks
                        (recommender E ctx (play_id_set_from_chunks chunks) q)),
               Call (GroundedStreamCall q chunks)]
              @ map Token token_buffer
              @ [Yield (Chunk TIER3_ANSWER), Yield (Done True)] \<and>
            emitted (run_stream E q m ctx) =
              [Meta (apply_mode ir0 m) ''grounded'' chunks
                 (recommender E ctx (play_id_set_from_chunks chunks) q),
               Chunk TIER3_ANSWER, Done True] \<and>
            Chunk ''INSUFFICIENT_CONTEXT'' \<notin> set (emitted (run_stream E q m ctx))"
      by blast
  qed
  with b show ?thesis by blast
qed

theorem run_stream_insufficient_context_witness:
  "stream_grounded_answer demo_env ''What is GridMaster?'' demo_chunks =
     ([''INSUFFICIENT'', ''_CONTEXT'', [CHR 0x0A]], None) \<and>
   buffered_before_relay False (run_stream demo_env ''What is GridMaster?'' None ctx_veldra) \<and>
   emitted (run_stream demo_env ''What is GridMaster?'' None ctx_veldra) =
     [Meta \<lparr>intent = ''assigned_knowledge'', confidence = 0.95,
            reasoning = ''product question''\<rparr>
        ''grounded'' demo_chunks
        (demo_recommender ctx_veldra {''play-001''} ''What is GridMaster?''),
      Chunk TIER3_ANSWER, Done True]"
proof -
  let ?ir = "\<lparr>intent = ''assigned_knowledge'', confidence = 0.95,
              reasoning = ''product question''\<rparr>"
  have o: "intent (apply_mode ?ir None) \<noteq> ''out_of_scope''"
    and g: "intent (apply_mode ?ir None) \<noteq> ''general_professional''"
    by (simp_all add: apply_mode_def)
  have r: "retrieve_chunks demo_env ''What is GridMaster?'' ctx_veldra
             (intent (apply_mode ?ir None)) =
           ([EmbeddingCall ''What is GridMaster?'',
             IndexQueryCall [0.1, 0.2] 6
               (build_pinecone_filter ctx_veldra ''assigned_knowledge'')],
            Inr demo_chunks)"
    by (simp add: apply_mode_def demo_retrieve)
  have s: "stream_grounded_answer demo_env ''What is GridMaster?'' demo_chunks =
             ([''INSUFFICIENT'', ''_CONTEXT'', [CHR 0x0A]], None)"
    by (simp add: stream_grounded_answer_def demo_env_def)
  have i: "(None :: error option) = None \<and>
           strip (concat [''INSUFFICIENT'', ''_CONTEXT'', [CHR 0x0A]]) = ''INSUFFICIENT_CONTEXT''"
    by (simp add: strip_def isspace_def)
  have d: "recommender demo_env ctx_veldra (play_id_set_from_chunks demo_chunks)
             ''What is GridMaster?'' =
           demo_recommender ctx_veldra {''play-001''} ''What is GridMaster?''"
    by (simp add: demo_play_ids demo_env_def)
  from run_stream_insufficient_context[OF demo_classify o g r demo_chunks_nonempty s] i
  have "buffered_before_relay False (run_stream demo_env ''What is GridMaster?'' None ctx_veldra) \<and>
        emitted (run_stream demo_env ''What is GridMaster?'' None ctx_veldra) =
          [Meta (apply_mode ?ir None) ''grounded'' demo_chunks
             (recommender demo_env ctx_veldra (play_id_set_from_chunks demo_chunks)
                ''What is GridMaster?''),
           Chunk TIER3_ANSWER, Done True]"
    by blast
  with s show ?thesis by (simp add: apply_mode_def d)
qed

end
